theory Spec2Isabelle
  imports Main "HOL-Library.Word"
begin

section \<open>Values\<close>

text \<open>
  The key module receives arbitrary JavaScript values and inspects them with
  \<open>typeof\<close>, \<open>instanceof\<close> and property reads. The values that take part are
  modelled by one datatype. The constants of \<open>internalBinding('crypto')\<close> are
  distinct tags; their numeric values are not in the sources and are not used.
\<close>

type_synonym byte = "8 word"

datatype KeyType = kKeyTypeSecret | kKeyTypePublic | kKeyTypePrivate

datatype KeyFormat = kKeyFormatPEM | kKeyFormatDER

datatype KeyEncoding =
  kKeyEncodingPKCS1 | kKeyEncodingPKCS8 | kKeyEncodingSPKI | kKeyEncodingSEC1

text \<open>
  Modelled from the spec: \<open>KeyObjectHandle\<close> is the opaque key handle of the native
  binding, which is not among the sources. It "holds raw key bytes/structure" and exposes
  \<open>init\<close>, \<open>export\<close>, \<open>getSymmetricKeySize\<close> and \<open>getAsymmetricKeyType\<close>.
  The model keeps the key type it was initialised with (none before \<open>init\<close>), the
  key bytes, and the asymmetric key type it reports (none for \<open>undefined\<close>).
\<close>

record KeyObjectHandle =
  h_keyType :: "KeyType option"
  h_bytes :: "byte list"
  h_asymmetricKeyType :: "string option"

text \<open>The class an object was instantiated from decides which methods it has.\<close>

datatype KeyClass = KeyObjectC | SecretKeyObjectC | PublicKeyObjectC | PrivateKeyObjectC

record KeyObject =
  cls :: KeyClass
  kKeyType :: string
  kHandle :: KeyObjectHandle
  kAsymmetricKeyType :: "string option"

text \<open>
  \<open>VBuf\<close> stands for every \<open>ArrayBuffer\<close> and \<open>ArrayBufferView\<close>; \<open>VObj\<close> is a plain
  object with its own string-keyed properties, the first binding of a name being the
  property; \<open>VCryptoKey\<close> is an object carrying the four symbol-keyed slots
  \<open>kKeyObject\<close>, \<open>kAlgorithm\<close>, \<open>kExtractable\<close> and \<open>kKeyUsages\<close>, in this order.
\<close>

datatype val =
    VUndefined
  | VNull
  | VBool bool
  | VNum int
  | VStr string
  | VBuf "byte list"
  | VArr "val list"
  | VObj "(string \<times> val) list"
  | VHandle KeyObjectHandle
  | VKeyObject KeyObject
  | VCryptoKey val val val val

datatype error =
    ERR_CRYPTO_INCOMPATIBLE_KEY_OPTIONS string string
  | ERR_CRYPTO_INVALID_KEY_OBJECT_TYPE val string
  | ERR_INVALID_ARG_TYPE string "string list" val
  | ERR_INVALID_ARG_VALUE string val
  | ERR_OUT_OF_RANGE string string val
  | ERR_OPERATION_FAILED string
  | TypeError string

text \<open>A thrown error ends the computation: the rest runs on a returned value only.\<close>

definition andThen :: "error + 'a \<Rightarrow> ('a \<Rightarrow> error + 'b) \<Rightarrow> error + 'b" where
  "andThen r f = (case r of Inl e \<Rightarrow> Inl e | Inr v \<Rightarrow> f v)"

fun typeof :: "val \<Rightarrow> string" where
  "typeof VUndefined = ''undefined''"
| "typeof (VBool b) = ''boolean''"
| "typeof (VNum n) = ''number''"
| "typeof (VStr s) = ''string''"
| "typeof v = ''object''"

section \<open>AbortController and AbortSignal\<close>

text \<open>
  The abort module builds on \<open>EventTarget\<close> and \<open>Event\<close> of
  \<open>internal/event_target\<close>, which it only calls. An event target is
  modelled by the sequence of events handed to \<open>dispatchEvent\<close>, oldest first.
\<close>

record Event =
  ev_type :: string
  ev_trusted :: bool

record EventTarget =
  dispatched :: "Event list"

text \<open>An abort signal is an event target that carries the \<open>kAborted\<close> slot.\<close>

record AbortSignal = EventTarget +
  kAborted :: bool

record AbortController =
  kSignal :: AbortSignal

definition EventTarget_new :: EventTarget where
  "EventTarget_new = \<lparr>dispatched = []\<rparr>"

definition dispatchEvent :: "AbortSignal \<Rightarrow> Event \<Rightarrow> AbortSignal" where
  "dispatchEvent signal event = signal\<lparr>dispatched := dispatched signal @ [event]\<rparr>"

text \<open>\<open>new AbortSignal(...)\<close>: the constructor throws before anything else.\<close>

definition AbortSignal_new :: "'a list \<Rightarrow> error + AbortSignal" where
  "AbortSignal_new args = Inl (TypeError ''Illegal constructor'')"

definition AbortSignal_aborted :: "AbortSignal \<Rightarrow> bool" where
  "AbortSignal_aborted this = (\<not> \<not> kAborted this)"

definition createAbortSignal :: AbortSignal where
  "createAbortSignal = EventTarget.extend EventTarget_new \<lparr>kAborted = False\<rparr>"

definition abortSignal :: "AbortSignal \<Rightarrow> AbortSignal" where
  "abortSignal signal =
     (if kAborted signal then signal
      else
        let signal = signal\<lparr>kAborted := True\<rparr>;
            event = \<lparr>ev_type = ''abort'', ev_trusted = True\<rparr>
        in dispatchEvent signal event)"

definition AbortController_new :: AbortController where
  "AbortController_new = \<lparr>kSignal = createAbortSignal\<rparr>"

definition AbortController_signal :: "AbortController \<Rightarrow> AbortSignal" where
  "AbortController_signal this = kSignal this"

definition AbortController_abort :: "AbortController \<Rightarrow> AbortController" where
  "AbortController_abort this = this\<lparr>kSignal := abortSignal (kSignal this)\<rparr>"

section \<open>The key module: collaborators\<close>

text \<open>
  The string decoder behind \<open>Buffer.from\<close> and the native parsing and serialising of
  asymmetric key material are outside the module; the functions that reach them take
  them as a parameter.
\<close>

record native =
  bufferFrom :: "string \<Rightarrow> val \<Rightarrow> error + byte list"
  handleInit :: "KeyType \<Rightarrow> val \<Rightarrow> KeyFormat option \<Rightarrow> KeyEncoding option \<Rightarrow> val
                   \<Rightarrow> error + KeyObjectHandle"
  handleExport :: "KeyObjectHandle \<Rightarrow> KeyFormat option \<Rightarrow> KeyEncoding option \<Rightarrow> val \<Rightarrow> val
                     \<Rightarrow> error + val"

definition KeyObjectHandle_new :: KeyObjectHandle where
  "KeyObjectHandle_new = \<lparr>h_keyType = None, h_bytes = [], h_asymmetricKeyType = None\<rparr>"

text \<open>
  Modelled from the spec: \<open>init(category, data, format?, type?, cipher?, passphrase?)\<close>
  "constructs/loads key material; fails (propagated) on malformed material". For a
  secret key the material is the byte sequence itself; the other categories go to the
  native parser.
\<close>

definition KeyObjectHandle_init ::
  "native \<Rightarrow> KeyObjectHandle \<Rightarrow> KeyType \<Rightarrow> val \<Rightarrow> KeyFormat option \<Rightarrow> KeyEncoding option \<Rightarrow> val
     \<Rightarrow> error + KeyObjectHandle" where
  "KeyObjectHandle_init N this keyType data format type passphrase =
     (case keyType of
        kKeyTypeSecret \<Rightarrow>
          (case data of
             VBuf b \<Rightarrow> Inr (this\<lparr>h_keyType := Some kKeyTypeSecret, h_bytes := b\<rparr>)
           | _ \<Rightarrow> Inl (ERR_INVALID_ARG_TYPE ''data'' [''ArrayBuffer'', ''ArrayBufferView''] data))
      | _ \<Rightarrow> handleInit N keyType data format type passphrase)"

text \<open>
  Modelled from the spec: \<open>export(format?, type?, cipher?, passphrase?)\<close> "serializes key
  material per the resolved encoding; for secret keys takes no arguments and returns raw
  bytes".
\<close>

definition KeyObjectHandle_export ::
  "native \<Rightarrow> KeyObjectHandle \<Rightarrow> KeyFormat option \<Rightarrow> KeyEncoding option \<Rightarrow> val \<Rightarrow> val
     \<Rightarrow> error + val" where
  "KeyObjectHandle_export N this format type cipher passphrase =
     (if h_keyType this = Some kKeyTypeSecret then Inr (VBuf (h_bytes this))
      else handleExport N this format type cipher passphrase)"

definition KeyObjectHandle_getSymmetricKeySize :: "KeyObjectHandle \<Rightarrow> val" where
  "KeyObjectHandle_getSymmetricKeySize this = VNum (int (length (h_bytes this)))"

definition KeyObjectHandle_getAsymmetricKeyType :: "KeyObjectHandle \<Rightarrow> string option" where
  "KeyObjectHandle_getAsymmetricKeyType this = h_asymmetricKeyType this"

text \<open>
  Modelled from the spec: \<open>usages\<close> is an "order-preserving copy returned on read".
  \<open>ArrayFrom\<close> is the primordial \<open>Array.from\<close>: an array is copied element by
  element, a string gives its characters, a byte buffer its elements, \<open>null\<close> and
  \<open>undefined\<close> are not iterable, and a value with neither iterator nor length gives
  the empty array.
\<close>

fun ArrayFrom :: "val \<Rightarrow> error + val" where
  "ArrayFrom VUndefined = Inl (TypeError ''undefined is not iterable'')"
| "ArrayFrom VNull = Inl (TypeError ''object null is not iterable'')"
| "ArrayFrom (VArr xs) = Inr (VArr xs)"
| "ArrayFrom (VStr s) = Inr (VArr (map (\<lambda>c. VStr [c]) s))"
| "ArrayFrom (VBuf b) = Inr (VArr (map (\<lambda>w. VNum (uint w)) b))"
| "ArrayFrom v = Inr (VArr [])"

text \<open>Reading a symbol-keyed slot: \<open>obj[kKeyObject]\<close>, \<open>obj[kHandle]\<close> and so on.\<close>

fun get_kKeyObject :: "val \<Rightarrow> error + val" where
  "get_kKeyObject VUndefined = Inl (TypeError ''Cannot read property of undefined'')"
| "get_kKeyObject VNull = Inl (TypeError ''Cannot read property of null'')"
| "get_kKeyObject (VCryptoKey keyObject algorithm extractable keyUsages) = Inr keyObject"
| "get_kKeyObject v = Inr VUndefined"

fun get_kAlgorithm :: "val \<Rightarrow> error + val" where
  "get_kAlgorithm VUndefined = Inl (TypeError ''Cannot read property of undefined'')"
| "get_kAlgorithm VNull = Inl (TypeError ''Cannot read property of null'')"
| "get_kAlgorithm (VCryptoKey keyObject algorithm extractable keyUsages) = Inr algorithm"
| "get_kAlgorithm v = Inr VUndefined"

fun get_kExtractable :: "val \<Rightarrow> error + val" where
  "get_kExtractable VUndefined = Inl (TypeError ''Cannot read property of undefined'')"
| "get_kExtractable VNull = Inl (TypeError ''Cannot read property of null'')"
| "get_kExtractable (VCryptoKey keyObject algorithm extractable keyUsages) = Inr extractable"
| "get_kExtractable v = Inr VUndefined"

fun get_kKeyUsages :: "val \<Rightarrow> error + val" where
  "get_kKeyUsages VUndefined = Inl (TypeError ''Cannot read property of undefined'')"
| "get_kKeyUsages VNull = Inl (TypeError ''Cannot read property of null'')"
| "get_kKeyUsages (VCryptoKey keyObject algorithm extractable keyUsages) = Inr keyUsages"
| "get_kKeyUsages v = Inr VUndefined"

fun get_kHandle :: "val \<Rightarrow> error + val" where
  "get_kHandle VUndefined = Inl (TypeError ''Cannot read property of undefined'')"
| "get_kHandle VNull = Inl (TypeError ''Cannot read property of null'')"
| "get_kHandle (VKeyObject k) = Inr (VHandle (kHandle k))"
| "get_kHandle v = Inr VUndefined"

text \<open>
  Reading one of the string-keyed properties the module reads: \<open>format\<close>, \<open>type\<close>,
  \<open>cipher\<close>, \<open>passphrase\<close>, \<open>encoding\<close> and \<open>key\<close>, and the accessors of a
  \<open>CryptoKey\<close>. A key object answers \<open>type\<close> through its getter, a \<open>CryptoKey\<close>
  through the getter of the key object in its slot.
\<close>

fun getProp :: "val \<Rightarrow> string \<Rightarrow> error + val" where
  "getProp VUndefined p = Inl (TypeError ''Cannot read property of undefined'')"
| "getProp VNull p = Inl (TypeError ''Cannot read property of null'')"
| "getProp (VObj fs) p = Inr (case map_of fs p of None \<Rightarrow> VUndefined | Some v \<Rightarrow> v)"
| "getProp (VKeyObject k) p = Inr (if p = ''type'' then VStr (kKeyType k) else VUndefined)"
| "getProp (VCryptoKey keyObject algorithm extractable keyUsages) p =
     (if p = ''type'' then getProp keyObject ''type''
      else if p = ''extractable'' then Inr extractable
      else if p = ''algorithm'' then Inr algorithm
      else if p = ''usages'' then ArrayFrom keyUsages
      else Inr VUndefined)"
| "getProp v p = Inr VUndefined"

text \<open>
  Modelled from the spec: \<open>getArrayBufferOrView\<close> of \<open>internal/crypto/util\<close> is not
  among the sources. It coerces to a byte sequence, "honoring a caller-specified text
  encoding when [the value] is given as a string": a buffer is returned as it is, a
  string is decoded, anything else is an invalid-argument-type error.
\<close>

definition getArrayBufferOrView :: "native \<Rightarrow> val \<Rightarrow> string \<Rightarrow> val \<Rightarrow> error + val" where
  "getArrayBufferOrView N buffer name encoding =
     (case buffer of
        VBuf b \<Rightarrow> Inr (VBuf b)
      | VStr s \<Rightarrow> andThen (bufferFrom N s encoding) (\<lambda>b. Inr (VBuf b))
      | _ \<Rightarrow> Inl (ERR_INVALID_ARG_TYPE name
                 [''string'', ''ArrayBuffer'', ''Buffer'', ''TypedArray'', ''DataView''] buffer))"

definition byteLength :: "val \<Rightarrow> val" where
  "byteLength v = (case v of VBuf b \<Rightarrow> VNum (int (length b)) | _ \<Rightarrow> VUndefined)"

definition isArrayBufferView :: "val \<Rightarrow> bool" where
  "isArrayBufferView v = (case v of VBuf b \<Rightarrow> True | _ \<Rightarrow> False)"

definition isAnyArrayBuffer :: "val \<Rightarrow> bool" where
  "isAnyArrayBuffer v = (case v of VBuf b \<Rightarrow> True | _ \<Rightarrow> False)"

definition instanceof_KeyObjectHandle :: "val \<Rightarrow> bool" where
  "instanceof_KeyObjectHandle v = (case v of VHandle h \<Rightarrow> True | _ \<Rightarrow> False)"

section \<open>The key module\<close>

datatype KeyCtx = kConsumePublic | kConsumePrivate | kCreatePublic | kCreatePrivate

fun encodingNames :: "KeyEncoding \<Rightarrow> string" where
  "encodingNames kKeyEncodingPKCS1 = ''pkcs1''"
| "encodingNames kKeyEncodingPKCS8 = ''pkcs8''"
| "encodingNames kKeyEncodingSPKI = ''spki''"
| "encodingNames kKeyEncodingSEC1 = ''sec1''"

definition isKeyObject :: "val \<Rightarrow> bool" where
  "isKeyObject key = (case key of VKeyObject k \<Rightarrow> True | _ \<Rightarrow> False)"

definition isCryptoKey :: "val \<Rightarrow> bool" where
  "isCryptoKey obj =
     (obj \<noteq> VNull \<and> obj \<noteq> VUndefined \<and> get_kKeyObject obj \<noteq> Inr VUndefined)"

text \<open>
  \<open>new KeyObject(type, handle)\<close>, for the class \<open>c\<close> being instantiated. The call of
  the native base constructor \<open>super(handle)\<close> is outside the module and has no effect
  here. The slot \<open>kHandle\<close> is defined non-writable and non-configurable.
\<close>

definition KeyObject_new :: "KeyClass \<Rightarrow> val \<Rightarrow> val \<Rightarrow> error + KeyObject" where
  "KeyObject_new c type handle =
     (if type \<noteq> VStr ''secret'' \<and> type \<noteq> VStr ''public'' \<and> type \<noteq> VStr ''private''
      then Inl (ERR_INVALID_ARG_VALUE ''type'' type)
      else if typeof handle \<noteq> ''object'' \<or> \<not> instanceof_KeyObjectHandle handle
      then Inl (ERR_INVALID_ARG_TYPE ''handle'' [''object''] handle)
      else
        (case (type, handle) of
           (VStr t, VHandle h) \<Rightarrow>
             Inr \<lparr>cls = c, kKeyType = t, kHandle = h, kAsymmetricKeyType = None\<rparr>
         | _ \<Rightarrow> Inl (ERR_INVALID_ARG_TYPE ''handle'' [''object''] handle)))"

definition KeyObject_type :: "KeyObject \<Rightarrow> val" where
  "KeyObject_type this = VStr (kKeyType this)"

definition KeyObject_from :: "val \<Rightarrow> error + val" where
  "KeyObject_from key =
     (if \<not> isCryptoKey key then Inl (ERR_INVALID_ARG_TYPE ''key'' [''CryptoKey''] key)
      else get_kKeyObject key)"

definition SecretKeyObject_new :: "val \<Rightarrow> error + KeyObject" where
  "SecretKeyObject_new handle = KeyObject_new SecretKeyObjectC (VStr ''secret'') handle"

definition SecretKeyObject_symmetricKeySize :: "KeyObject \<Rightarrow> val" where
  "SecretKeyObject_symmetricKeySize this = KeyObjectHandle_getSymmetricKeySize (kHandle this)"

definition SecretKeyObject_export :: "native \<Rightarrow> KeyObject \<Rightarrow> error + val" where
  "SecretKeyObject_export N this =
     KeyObjectHandle_export N (kHandle this) None None VUndefined VUndefined"

text \<open>
  The getter \<open>asymmetricKeyType\<close> caches what the handle reports; it is the only code
  that writes to a key object after construction, so it returns the object as well.
  An absent or empty cached value is falsy and is computed again.
\<close>

definition AsymmetricKeyObject_asymmetricKeyType :: "KeyObject \<Rightarrow> val \<times> KeyObject" where
  "AsymmetricKeyObject_asymmetricKeyType this =
     (case kAsymmetricKeyType this of
        Some t \<Rightarrow>
          (if t \<noteq> [] then (VStr t, this)
           else
             (let r = KeyObjectHandle_getAsymmetricKeyType (kHandle this)
              in (case r of None \<Rightarrow> VUndefined | Some s \<Rightarrow> VStr s,
                  this\<lparr>kAsymmetricKeyType := r\<rparr>)))
      | None \<Rightarrow>
          (let r = KeyObjectHandle_getAsymmetricKeyType (kHandle this)
           in (case r of None \<Rightarrow> VUndefined | Some s \<Rightarrow> VStr s,
               this\<lparr>kAsymmetricKeyType := r\<rparr>)))"

definition PublicKeyObject_new :: "val \<Rightarrow> error + KeyObject" where
  "PublicKeyObject_new handle = KeyObject_new PublicKeyObjectC (VStr ''public'') handle"

definition PrivateKeyObject_new :: "val \<Rightarrow> error + KeyObject" where
  "PrivateKeyObject_new handle = KeyObject_new PrivateKeyObjectC (VStr ''private'') handle"

definition parseKeyFormat :: "val \<Rightarrow> KeyFormat option \<Rightarrow> string \<Rightarrow> error + KeyFormat" where
  "parseKeyFormat formatStr defaultFormat optionName =
     (case (formatStr, defaultFormat) of
        (VUndefined, Some d) \<Rightarrow> Inr d
      | _ \<Rightarrow>
          if formatStr = VStr ''pem'' then Inr kKeyFormatPEM
          else if formatStr = VStr ''der'' then Inr kKeyFormatDER
          else Inl (ERR_INVALID_ARG_VALUE optionName formatStr))"

definition parseKeyType ::
  "val \<Rightarrow> bool \<Rightarrow> val \<Rightarrow> val \<Rightarrow> string \<Rightarrow> error + KeyEncoding option" where
  "parseKeyType typeStr required keyType isPublic optionName =
     (if typeStr = VUndefined \<and> \<not> required then Inr None
      else if typeStr = VStr ''pkcs1'' then
        (if keyType \<noteq> VUndefined \<and> keyType \<noteq> VStr ''rsa''
         then Inl (ERR_CRYPTO_INCOMPATIBLE_KEY_OPTIONS ''pkcs1'' ''can only be used for RSA keys'')
         else Inr (Some kKeyEncodingPKCS1))
      else if typeStr = VStr ''spki'' \<and> isPublic \<noteq> VBool False then Inr (Some kKeyEncodingSPKI)
      else if typeStr = VStr ''pkcs8'' \<and> isPublic \<noteq> VBool True then Inr (Some kKeyEncodingPKCS8)
      else if typeStr = VStr ''sec1'' \<and> isPublic \<noteq> VBool True then
        (if keyType \<noteq> VUndefined \<and> keyType \<noteq> VStr ''ec''
         then Inl (ERR_CRYPTO_INCOMPATIBLE_KEY_OPTIONS ''sec1'' ''can only be used for EC keys'')
         else Inr (Some kKeyEncodingSEC1))
      else Inl (ERR_INVALID_ARG_VALUE optionName typeStr))"

text \<open>The option path of an error; \<open>objName\<close> is \<open>undefined\<close> or a name.\<close>

definition option_path :: "string \<Rightarrow> string option \<Rightarrow> string" where
  "option_path name objName =
     (case objName of
        None \<Rightarrow> ''options.'' @ name
      | Some obj \<Rightarrow> ''options.'' @ obj @ ''.'' @ name)"

definition parseKeyFormatAndType ::
  "val \<Rightarrow> val \<Rightarrow> val \<Rightarrow> string option \<Rightarrow> error + KeyFormat \<times> KeyEncoding option" where
  "parseKeyFormatAndType enc keyType isPublic objName =
     andThen (getProp enc ''format'') (\<lambda>formatStr.
     andThen (getProp enc ''type'') (\<lambda>typeStr.
       let isInput = (keyType = VUndefined) in
       andThen (parseKeyFormat formatStr
                  (if isInput then Some kKeyFormatPEM else None)
                  (option_path ''format'' objName)) (\<lambda>format.
       andThen (parseKeyType typeStr
                  (\<not> isInput \<or> format = kKeyFormatDER)
                  keyType
                  isPublic
                  (option_path ''type'' objName)) (\<lambda>type.
       Inr (format, type)))))"

definition isStringOrBuffer :: "val \<Rightarrow> bool" where
  "isStringOrBuffer v = (typeof v = ''string'' \<or> isArrayBufferView v \<or> isAnyArrayBuffer v)"

record key_encoding =
  enc_format :: KeyFormat
  enc_type :: "KeyEncoding option"
  enc_cipher :: val
  enc_passphrase :: val

definition parseKeyEncoding ::
  "native \<Rightarrow> val \<Rightarrow> val \<Rightarrow> val \<Rightarrow> string option \<Rightarrow> error + key_encoding" where
  "parseKeyEncoding N enc keyType isPublic objName =
     (if enc = VNull \<or> typeof enc \<noteq> ''object''
      then Inl (ERR_INVALID_ARG_TYPE ''options'' [''object''] enc)
      else
        let isInput = (keyType = VUndefined) in
        andThen (parseKeyFormatAndType enc keyType isPublic objName) (\<lambda>(format, type).
        andThen
          (if isPublic \<noteq> VBool True then
             andThen (getProp enc ''cipher'') (\<lambda>cipher.
             andThen (getProp enc ''passphrase'') (\<lambda>passphrase.
             andThen (getProp enc ''encoding'') (\<lambda>encoding.
             andThen
               (if \<not> isInput then
                  (if cipher \<noteq> VNull \<and> cipher \<noteq> VUndefined then
                     (if typeof cipher \<noteq> ''string''
                      then Inl (ERR_INVALID_ARG_VALUE (option_path ''cipher'' objName) cipher)
                      else
                        (case type of
                           Some t \<Rightarrow>
                             if format = kKeyFormatDER \<and>
                                (t = kKeyEncodingPKCS1 \<or> t = kKeyEncodingSEC1)
                             then Inl (ERR_CRYPTO_INCOMPATIBLE_KEY_OPTIONS
                                         (encodingNames t) ''does not support encryption'')
                             else Inr ()
                         | None \<Rightarrow> Inr ()))
                   else if passphrase \<noteq> VUndefined
                   then Inl (ERR_INVALID_ARG_VALUE (option_path ''cipher'' objName) cipher)
                   else Inr ())
                else Inr ()) (\<lambda>_.
             if (isInput \<and> passphrase \<noteq> VUndefined \<and> \<not> isStringOrBuffer passphrase) \<or>
                (\<not> isInput \<and> (cipher \<noteq> VNull \<and> cipher \<noteq> VUndefined) \<and>
                 \<not> isStringOrBuffer passphrase)
             then Inl (ERR_INVALID_ARG_VALUE (option_path ''passphrase'' objName) passphrase)
             else Inr (cipher, passphrase, encoding)))))
           else Inr (VUndefined, VUndefined, VUndefined)) (\<lambda>(cipher, passphrase, encoding).
        andThen
          (if passphrase \<noteq> VUndefined
           then getArrayBufferOrView N passphrase ''key.passphrase'' encoding
           else Inr passphrase) (\<lambda>passphrase.
        Inr \<lparr>enc_format = format, enc_type = type,
             enc_cipher = cipher, enc_passphrase = passphrase\<rparr>))))"

text \<open>\<open>keyType ? true : undefined\<close>: \<open>undefined\<close>, \<open>null\<close> and the empty string are falsy.\<close>

definition parsePublicKeyEncoding ::
  "native \<Rightarrow> val \<Rightarrow> val \<Rightarrow> string option \<Rightarrow> error + key_encoding" where
  "parsePublicKeyEncoding N enc keyType objName =
     parseKeyEncoding N enc keyType
       (if keyType = VUndefined \<or> keyType = VNull \<or> keyType = VStr [] \<or>
           keyType = VBool False \<or> keyType = VNum 0
        then VUndefined else VBool True)
       objName"

definition parsePrivateKeyEncoding ::
  "native \<Rightarrow> val \<Rightarrow> val \<Rightarrow> string option \<Rightarrow> error + key_encoding" where
  "parsePrivateKeyEncoding N enc keyType objName =
     parseKeyEncoding N enc keyType (VBool False) objName"

text \<open>
  The \<open>export\<close> methods of the asymmetric classes: the getter may fill the cache before
  the encoding is parsed, so the object is returned beside the outcome.
\<close>

definition PublicKeyObject_export :: "native \<Rightarrow> KeyObject \<Rightarrow> val \<Rightarrow> (error + val) \<times> KeyObject" where
  "PublicKeyObject_export N this encoding =
     (let (keyType, this) = AsymmetricKeyObject_asymmetricKeyType this
      in (andThen (parsePublicKeyEncoding N encoding keyType None) (\<lambda>e.
            KeyObjectHandle_export N (kHandle this) (Some (enc_format e)) (enc_type e)
              VUndefined VUndefined),
          this))"

definition PrivateKeyObject_export :: "native \<Rightarrow> KeyObject \<Rightarrow> val \<Rightarrow> (error + val) \<times> KeyObject" where
  "PrivateKeyObject_export N this encoding =
     (let (keyType, this) = AsymmetricKeyObject_asymmetricKeyType this
      in (andThen (parsePrivateKeyEncoding N encoding keyType None) (\<lambda>e.
            KeyObjectHandle_export N (kHandle this) (Some (enc_format e)) (enc_type e)
              (enc_cipher e) (enc_passphrase e)),
          this))"

definition getKeyObjectHandle :: "val \<Rightarrow> KeyCtx \<Rightarrow> error + val" where
  "getKeyObjectHandle key ctx =
     (if ctx = kCreatePrivate
      then Inl (ERR_INVALID_ARG_TYPE ''key''
                  [''string'', ''ArrayBuffer'', ''Buffer'', ''TypedArray'', ''DataView''] key)
      else
        andThen (getProp key ''type'') (\<lambda>key_type.
          if key_type \<noteq> VStr ''private'' then
            (if ctx = kConsumePrivate \<or> ctx = kCreatePublic
             then Inl (ERR_CRYPTO_INVALID_KEY_OBJECT_TYPE key_type ''private'')
             else if key_type \<noteq> VStr ''public''
             then Inl (ERR_CRYPTO_INVALID_KEY_OBJECT_TYPE key_type ''private or public'')
             else get_kHandle key)
          else get_kHandle key))"

definition getKeyTypes :: "bool \<Rightarrow> bool \<Rightarrow> string list" where
  "getKeyTypes allowKeyObject bufferOnly =
     [''ArrayBuffer'', ''Buffer'', ''TypedArray'', ''DataView'']
     @ (if \<not> bufferOnly then [''string''] else [])
     @ (if \<not> bufferOnly \<and> allowKeyObject then [''KeyObject'', ''CryptoKey''] else [])"

text \<open>The object a preparation returns; an absent property reads as \<open>undefined\<close>.\<close>

record prepared_key =
  prep_format :: "KeyFormat option"
  prep_type :: "KeyEncoding option"
  prep_data :: val
  prep_cipher :: val
  prep_passphrase :: val

definition only_data :: "val \<Rightarrow> prepared_key" where
  "only_data d = \<lparr>prep_format = None, prep_type = None, prep_data = d,
                  prep_cipher = VUndefined, prep_passphrase = VUndefined\<rparr>"

definition prepareAsymmetricKey :: "native \<Rightarrow> val \<Rightarrow> KeyCtx \<Rightarrow> error + prepared_key" where
  "prepareAsymmetricKey N key ctx =
     (if isKeyObject key then
        andThen (getKeyObjectHandle key ctx) (\<lambda>d. Inr (only_data d))
      else if isCryptoKey key then
        andThen (get_kKeyObject key) (\<lambda>keyObject.
        andThen (getKeyObjectHandle keyObject ctx) (\<lambda>d. Inr (only_data d)))
      else if isStringOrBuffer key then
        andThen (getArrayBufferOrView N key ''key'' VUndefined) (\<lambda>d.
          Inr ((only_data d)\<lparr>prep_format := Some kKeyFormatPEM\<rparr>))
      else if typeof key = ''object'' then
        andThen (getProp key ''key'') (\<lambda>data.
        andThen (getProp key ''encoding'') (\<lambda>encoding.
          if isKeyObject data then
            andThen (getKeyObjectHandle data ctx) (\<lambda>d. Inr (only_data d))
          else if isCryptoKey data then
            andThen (get_kKeyObject data) (\<lambda>keyObject.
            andThen (getKeyObjectHandle keyObject ctx) (\<lambda>d. Inr (only_data d)))
          else if \<not> isStringOrBuffer data then
            Inl (ERR_INVALID_ARG_TYPE ''key.key'' (getKeyTypes (ctx \<noteq> kCreatePrivate) False) data)
          else
            let isPublic =
                  (if ctx = kConsumePrivate \<or> ctx = kCreatePrivate then VBool False
                   else VUndefined) in
            andThen (getArrayBufferOrView N data ''key'' encoding) (\<lambda>d.
            andThen (parseKeyEncoding N key VUndefined isPublic None) (\<lambda>e.
              Inr \<lparr>prep_format = Some (enc_format e), prep_type = enc_type e, prep_data = d,
                   prep_cipher = enc_cipher e, prep_passphrase = enc_passphrase e\<rparr>))))
      else Inl (ERR_INVALID_ARG_TYPE ''key'' (getKeyTypes (ctx \<noteq> kCreatePrivate) False) key))"

definition preparePrivateKey :: "native \<Rightarrow> val \<Rightarrow> error + prepared_key" where
  "preparePrivateKey N key = prepareAsymmetricKey N key kConsumePrivate"

definition preparePublicOrPrivateKey :: "native \<Rightarrow> val \<Rightarrow> error + prepared_key" where
  "preparePublicOrPrivateKey N key = prepareAsymmetricKey N key kConsumePublic"

definition prepareSecretKey :: "native \<Rightarrow> val \<Rightarrow> val \<Rightarrow> bool \<Rightarrow> error + val" where
  "prepareSecretKey N key encoding bufferOnly =
     (if \<not> bufferOnly \<and> isKeyObject key then
        andThen (getProp key ''type'') (\<lambda>key_type.
          if key_type \<noteq> VStr ''secret''
          then Inl (ERR_CRYPTO_INVALID_KEY_OBJECT_TYPE key_type ''secret'')
          else get_kHandle key)
      else if \<not> bufferOnly \<and> isCryptoKey key then
        andThen (getProp key ''type'') (\<lambda>key_type.
          if key_type \<noteq> VStr ''secret''
          then Inl (ERR_CRYPTO_INVALID_KEY_OBJECT_TYPE key_type ''secret'')
          else andThen (get_kKeyObject key) get_kHandle)
      else if typeof key \<noteq> ''string'' \<and> \<not> isArrayBufferView key \<and> \<not> isAnyArrayBuffer key
      then Inl (ERR_INVALID_ARG_TYPE ''key'' (getKeyTypes (\<not> bufferOnly) bufferOnly) key)
      else getArrayBufferOrView N key ''key'' encoding)"

definition createSecretKey :: "native \<Rightarrow> val \<Rightarrow> val \<Rightarrow> error + val" where
  "createSecretKey N key encoding =
     andThen (prepareSecretKey N key encoding True) (\<lambda>key.
       if byteLength key = VNum 0
       then Inl (ERR_OUT_OF_RANGE ''key.byteLength'' ''> 0'' (byteLength key))
       else
         let handle = KeyObjectHandle_new in
         andThen (KeyObjectHandle_init N handle kKeyTypeSecret key None None VUndefined) (\<lambda>handle.
         andThen (SecretKeyObject_new (VHandle handle)) (\<lambda>k. Inr (VKeyObject k))))"

definition createPublicKey :: "native \<Rightarrow> val \<Rightarrow> error + val" where
  "createPublicKey N key =
     andThen (prepareAsymmetricKey N key kCreatePublic) (\<lambda>p.
       let handle = KeyObjectHandle_new in
       andThen (KeyObjectHandle_init N handle kKeyTypePublic
                  (prep_data p) (prep_format p) (prep_type p) VUndefined) (\<lambda>handle.
       andThen (PublicKeyObject_new (VHandle handle)) (\<lambda>k. Inr (VKeyObject k))))"

definition createPrivateKey :: "native \<Rightarrow> val \<Rightarrow> error + val" where
  "createPrivateKey N key =
     andThen (prepareAsymmetricKey N key kCreatePrivate) (\<lambda>p.
       let handle = KeyObjectHandle_new in
       andThen (KeyObjectHandle_init N handle kKeyTypePrivate
                  (prep_data p) (prep_format p) (prep_type p) (prep_passphrase p)) (\<lambda>handle.
       andThen (PrivateKeyObject_new (VHandle handle)) (\<lambda>k. Inr (VKeyObject k))))"

text \<open>
  Calling \<open>export()\<close> with no argument on a value: the method of the object's class runs.
  Only \<open>SecretKeyObject\<close> is needed with no argument; the base class has no \<open>export\<close>.
\<close>

definition call_export0 :: "native \<Rightarrow> val \<Rightarrow> error + val" where
  "call_export0 N v =
     (case v of
        VKeyObject k \<Rightarrow>
          (case cls k of
             SecretKeyObjectC \<Rightarrow> SecretKeyObject_export N k
           | KeyObjectC \<Rightarrow> Inl (TypeError ''export is not a function'')
           | PublicKeyObjectC \<Rightarrow> fst (PublicKeyObject_export N k VUndefined)
           | PrivateKeyObjectC \<Rightarrow> fst (PrivateKeyObject_export N k VUndefined))
      | _ \<Rightarrow> Inl (TypeError ''export is not a function''))"

section \<open>CryptoKey\<close>

text \<open>\<open>new CryptoKey(...)\<close>: the constructor throws before anything else.\<close>

definition CryptoKey_new :: "val list \<Rightarrow> error + val" where
  "CryptoKey_new args = Inl (ERR_OPERATION_FAILED ''Illegal constructor'')"

text \<open>
  \<open>new InternalCryptoKey(keyObject, algorithm, keyUsages, extractable)\<close>; its prototype
  chain is set to that of \<open>CryptoKey\<close>, so the instance has the accessors below. An
  argument left out is \<open>undefined\<close>.
\<close>

definition InternalCryptoKey_new :: "val \<Rightarrow> val \<Rightarrow> val \<Rightarrow> val \<Rightarrow> val" where
  "InternalCryptoKey_new keyObject algorithm keyUsages extractable =
     VCryptoKey keyObject algorithm extractable keyUsages"

definition CryptoKey_type :: "val \<Rightarrow> error + val" where
  "CryptoKey_type this = andThen (get_kKeyObject this) (\<lambda>keyObject. getProp keyObject ''type'')"

definition CryptoKey_extractable :: "val \<Rightarrow> error + val" where
  "CryptoKey_extractable this = get_kExtractable this"

definition CryptoKey_algorithm :: "val \<Rightarrow> error + val" where
  "CryptoKey_algorithm this = get_kAlgorithm this"

definition CryptoKey_usages :: "val \<Rightarrow> error + val" where
  "CryptoKey_usages this = andThen (get_kKeyUsages this) ArrayFrom"

record clone_data =
  keyObject :: val
  algorithm :: val
  usages :: val
  extractable :: val

record clone_result =
  data :: clone_data
  deserializeInfo :: string

definition CryptoKey_kClone :: "val \<Rightarrow> error + clone_result" where
  "CryptoKey_kClone this =
     andThen (get_kKeyObject this) (\<lambda>keyObject.
     andThen (CryptoKey_algorithm this) (\<lambda>algorithm.
     andThen (CryptoKey_extractable this) (\<lambda>extractable.
     andThen (CryptoKey_usages this) (\<lambda>usages.
       Inr \<lparr>data = \<lparr>keyObject = keyObject, algorithm = algorithm,
                    usages = usages, extractable = extractable\<rparr>,
            deserializeInfo = ''internal/crypto/keys:InternalCryptoKey''\<rparr>))))"

text \<open>
  \<open>[kDeserialize]\<close> assigns the four slots of the receiving object, whatever they held.
\<close>

definition CryptoKey_kDeserialize :: "val \<Rightarrow> clone_data \<Rightarrow> val" where
  "CryptoKey_kDeserialize this d =
     (case this of
        VCryptoKey ko alg ex us \<Rightarrow>
          VCryptoKey (keyObject d) (algorithm d) (extractable d) (usages d)
      | _ \<Rightarrow> this)"

text \<open>
  The receiving side of a transfer: the transfer machinery, which is outside the module,
  instantiates the class named by \<open>deserializeInfo\<close> with no argument and calls
  \<open>[kDeserialize]\<close> on it with the snapshot.
\<close>

definition receive :: "clone_result \<Rightarrow> val" where
  "receive c =
     CryptoKey_kDeserialize
       (InternalCryptoKey_new VUndefined VUndefined VUndefined VUndefined) (data c)"

section \<open>A collaborator for the examples\<close>

text \<open>
  A stand-in for the native side, used where a statement is evaluated at a concrete
  input: a string decodes to one byte per character, and no asymmetric key material is
  accepted or serialised.
\<close>

definition example_native :: native where
  "example_native =
     \<lparr>bufferFrom = (\<lambda>s encoding. Inr (map (\<lambda>c. of_nat (of_char c)) s)),
      handleInit = (\<lambda>keyType data format type passphrase.
                      Inl (ERR_OPERATION_FAILED ''unsupported key material'')),
      handleExport = (\<lambda>handle format type cipher passphrase.
                        Inl (ERR_OPERATION_FAILED ''unsupported key material''))\<rparr>"

text \<open>
  The name of a native key type as a category, and whether the category of a key object
  is the key type its handle was initialised with.
\<close>

fun categoryName :: "KeyType \<Rightarrow> string" where
  "categoryName kKeyTypeSecret = ''secret''"
| "categoryName kKeyTypePublic = ''public''"
| "categoryName kKeyTypePrivate = ''private''"

definition category_matches :: "KeyObject \<Rightarrow> bool" where
  "category_matches k = (map_option categoryName (h_keyType (kHandle k)) = Some (kKeyType k))"

section \<open>Properties of the abort module\<close>

lemma abortSignal_aborted: "kAborted (abortSignal s)"
  by (simp add: abortSignal_def dispatchEvent_def Let_def)

lemma abortSignal_fixed: "kAborted s \<Longrightarrow> abortSignal s = s"
  by (simp add: abortSignal_def)

lemma abort_abort: "AbortController_abort (AbortController_abort c) = AbortController_abort c"
  by (simp add: AbortController_abort_def abortSignal_fixed abortSignal_aborted)

lemma abort_funpow: "(AbortController_abort ^^ Suc n) c = AbortController_abort c"
proof (induction n)
  case 0
  show ?case by simp
next
  case (Suc n)
  have "(AbortController_abort ^^ Suc (Suc n)) c
          = AbortController_abort ((AbortController_abort ^^ Suc n) c)"
    by simp
  also have "\<dots> = AbortController_abort (AbortController_abort c)"
    by (simp only: Suc.IH)
  finally show ?case by (simp only: abort_abort)
qed

text \<open>
  C9. The first \<open>abort()\<close> on a controller whose signal is not yet aborted sets the
  flag and hands exactly one trusted \<open>abort\<close> event to \<open>dispatchEvent\<close>; any number
  of further calls leaves the controller, its signal and the dispatched events as the
  first call left them.
\<close>

theorem abort_idempotent:
  assumes "\<not> AbortSignal_aborted (AbortController_signal c)"
  shows "AbortSignal_aborted (AbortController_signal (AbortController_abort c))
       \<and> dispatched (AbortController_signal (AbortController_abort c))
           = dispatched (AbortController_signal c) @ [\<lparr>ev_type = ''abort'', ev_trusted = True\<rparr>]
       \<and> (AbortController_abort ^^ Suc n) c = AbortController_abort c"
proof -
  from assms have na: "\<not> kAborted (kSignal c)"
    by (simp add: AbortSignal_aborted_def AbortController_signal_def)
  have a: "AbortSignal_aborted (AbortController_signal (AbortController_abort c))"
    by (simp add: AbortSignal_aborted_def AbortController_signal_def
        AbortController_abort_def abortSignal_aborted)
  have d: "dispatched (AbortController_signal (AbortController_abort c))
           = dispatched (AbortController_signal c) @ [\<lparr>ev_type = ''abort'', ev_trusted = True\<rparr>]"
    using na
    by (simp add: AbortController_signal_def AbortController_abort_def abortSignal_def
        dispatchEvent_def Let_def)
  show ?thesis using a d abort_funpow by blast
qed

theorem abort_idempotent_witness:
  "\<not> AbortSignal_aborted (AbortController_signal AbortController_new)
   \<and> AbortSignal_aborted (AbortController_signal (AbortController_abort AbortController_new))
   \<and> dispatched (AbortController_signal (AbortController_abort AbortController_new))
       = [\<lparr>ev_type = ''abort'', ev_trusted = True\<rparr>]
   \<and> AbortController_abort (AbortController_abort (AbortController_abort AbortController_new))
       = AbortController_abort AbortController_new"
proof -
  have h: "\<not> AbortSignal_aborted (AbortController_signal AbortController_new)"
    by (simp add: AbortSignal_aborted_def AbortController_signal_def AbortController_new_def
        createAbortSignal_def EventTarget_new_def EventTarget.extend_def)
  have e: "dispatched (AbortController_signal AbortController_new) = []"
    by (simp add: AbortController_signal_def AbortController_new_def
        createAbortSignal_def EventTarget_new_def EventTarget.extend_def)
  from abort_idempotent [OF h, of 2] h e show ?thesis
    by (simp add: numeral_2_eq_2)
qed

text \<open>
  C10. \<open>new AbortSignal(...)\<close> throws a \<open>TypeError\<close> for every argument list, so
  signals come from \<open>createAbortSignal\<close> alone, which the \<open>AbortController\<close>
  constructor calls; the signal of a fresh controller reports \<open>aborted === false\<close>.
\<close>

theorem AbortSignal_illegal_constructor:
  "AbortSignal_new args = Inl (TypeError ''Illegal constructor'')
   \<and> AbortController_signal AbortController_new = createAbortSignal
   \<and> AbortSignal_aborted (AbortController_signal AbortController_new) = False"
  by (simp add: AbortSignal_new_def AbortController_signal_def AbortController_new_def
      AbortSignal_aborted_def createAbortSignal_def EventTarget.extend_def)

section \<open>Properties of the key module\<close>

lemma andThen_Inl: "andThen (Inl e) f = Inl e"
  by (simp add: andThen_def)

lemma andThen_Inr: "andThen (Inr v) f = f v"
  by (simp add: andThen_def)

lemma KeyObject_new_ok:
  "t = ''secret'' \<or> t = ''public'' \<or> t = ''private'' \<Longrightarrow>
   KeyObject_new c (VStr t) (VHandle h)
     = Inr \<lparr>cls = c, kKeyType = t, kHandle = h, kAsymmetricKeyType = None\<rparr>"
  by (auto simp: KeyObject_new_def instanceof_KeyObjectHandle_def)

lemma KeyObject_new_bad_type:
  "type \<noteq> VStr ''secret'' \<Longrightarrow> type \<noteq> VStr ''public'' \<Longrightarrow> type \<noteq> VStr ''private'' \<Longrightarrow>
   KeyObject_new c type handle = Inl (ERR_INVALID_ARG_VALUE ''type'' type)"
  by (simp add: KeyObject_new_def)

lemma KeyObject_new_bad_handle:
  "type = VStr ''secret'' \<or> type = VStr ''public'' \<or> type = VStr ''private'' \<Longrightarrow>
   \<not> instanceof_KeyObjectHandle handle \<Longrightarrow>
   KeyObject_new c type handle = Inl (ERR_INVALID_ARG_TYPE ''handle'' [''object''] handle)"
  by (auto simp: KeyObject_new_def)

lemma asymmetricKeyType_keeps:
  "kKeyType (snd (AsymmetricKeyObject_asymmetricKeyType k)) = kKeyType k
   \<and> kHandle (snd (AsymmetricKeyObject_asymmetricKeyType k)) = kHandle k
   \<and> cls (snd (AsymmetricKeyObject_asymmetricKeyType k)) = cls k"
  by (simp add: AsymmetricKeyObject_asymmetricKeyType_def Let_def split: option.splits)

lemma prepareSecretKey_buffer:
  "prepareSecretKey N (VBuf b) encoding True = Inr (VBuf b)"
  by (simp add: prepareSecretKey_def isArrayBufferView_def getArrayBufferOrView_def)

lemma createSecretKey_buffer:
  "b \<noteq> [] \<Longrightarrow>
   createSecretKey N (VBuf b) encoding
     = Inr (VKeyObject \<lparr>cls = SecretKeyObjectC, kKeyType = ''secret'',
                        kHandle = \<lparr>h_keyType = Some kKeyTypeSecret, h_bytes = b,
                                   h_asymmetricKeyType = None\<rparr>,
                        kAsymmetricKeyType = None\<rparr>)"
  by (simp add: createSecretKey_def prepareSecretKey_buffer andThen_Inr byteLength_def
      KeyObjectHandle_init_def KeyObjectHandle_new_def SecretKeyObject_new_def
      KeyObject_new_ok Let_def)

lemma createSecretKey_result:
  assumes "createSecretKey N key encoding = Inr v"
  shows "\<exists>b. b \<noteq> [] \<and>
           v = VKeyObject \<lparr>cls = SecretKeyObjectC, kKeyType = ''secret'',
                           kHandle = \<lparr>h_keyType = Some kKeyTypeSecret, h_bytes = b,
                                      h_asymmetricKeyType = None\<rparr>,
                           kAsymmetricKeyType = None\<rparr>"
proof -
  from assms obtain p where p: "prepareSecretKey N key encoding True = Inr p"
    by (cases "prepareSecretKey N key encoding True")
       (simp_all add: createSecretKey_def andThen_Inl)
  have "\<exists>b. p = VBuf b"
    using p
    by (cases key)
       (auto simp: prepareSecretKey_def getArrayBufferOrView_def isArrayBufferView_def
          isAnyArrayBuffer_def andThen_def split: sum.splits if_splits)
  then obtain b where b: "p = VBuf b" ..
  show ?thesis
  proof (cases "b = []")
    case True
    with assms p b show ?thesis
      by (simp add: createSecretKey_def andThen_Inr byteLength_def)
  next
    case False
    with assms p b
    have "v = VKeyObject \<lparr>cls = SecretKeyObjectC, kKeyType = ''secret'',
                          kHandle = \<lparr>h_keyType = Some kKeyTypeSecret, h_bytes = b,
                                     h_asymmetricKeyType = None\<rparr>,
                          kAsymmetricKeyType = None\<rparr>"
      by (simp add: createSecretKey_def andThen_Inr byteLength_def
          KeyObjectHandle_init_def KeyObjectHandle_new_def SecretKeyObject_new_def
          KeyObject_new_ok Let_def)
    with False show ?thesis by blast
  qed
qed

text \<open>
  C1, as stated, fails: the constructor accepts the category \<open>public\<close> for a handle that
  was initialised as a secret key.
\<close>

theorem KeyObject_category_mismatch_counterexample:
  "KeyObjectHandle_init example_native KeyObjectHandle_new kKeyTypeSecret (VBuf [1, 2, 3])
     None None VUndefined
     = Inr \<lparr>h_keyType = Some kKeyTypeSecret, h_bytes = [1, 2, 3],
            h_asymmetricKeyType = None\<rparr>
   \<and> KeyObject_new KeyObjectC (VStr ''public'')
     (VHandle \<lparr>h_keyType = Some kKeyTypeSecret, h_bytes = [1, 2, 3],
               h_asymmetricKeyType = None\<rparr>)
     = Inr \<lparr>cls = KeyObjectC, kKeyType = ''public'',
            kHandle = \<lparr>h_keyType = Some kKeyTypeSecret, h_bytes = [1, 2, 3],
                       h_asymmetricKeyType = None\<rparr>,
            kAsymmetricKeyType = None\<rparr>
   \<and> \<not> category_matches
         \<lparr>cls = KeyObjectC, kKeyType = ''public'',
          kHandle = \<lparr>h_keyType = Some kKeyTypeSecret, h_bytes = [1, 2, 3],
                     h_asymmetricKeyType = None\<rparr>,
          kAsymmetricKeyType = None\<rparr>"
  by (simp add: KeyObject_new_ok category_matches_def KeyObjectHandle_init_def
      KeyObjectHandle_new_def)

text \<open>
  C1, amended. The category of a key object is fixed at construction: the constructor
  succeeds exactly when the type is \<open>secret\<close>, \<open>public\<close> or \<open>private\<close> and the handle is
  a \<open>KeyObjectHandle\<close>, and the object then carries that type and that handle; another
  type is an invalid-argument-value error, another handle an invalid-argument-type
  error; the cache of \<open>asymmetricKeyType\<close>, the only later write, changes neither. The
  constructor does not compare the category with the key type of the handle; a key
  object returned by \<open>createSecretKey\<close> has the category \<open>secret\<close> and a handle
  initialised as a secret key.
\<close>

theorem KeyObject_category_fixed:
  "(KeyObject_new c type handle = Inr k \<longleftrightarrow>
      (type = VStr ''secret'' \<or> type = VStr ''public'' \<or> type = VStr ''private'')
      \<and> type = VStr (kKeyType k) \<and> handle = VHandle (kHandle k)
      \<and> cls k = c \<and> kAsymmetricKeyType k = None)
   \<and> (type1 \<noteq> VStr ''secret'' \<and> type1 \<noteq> VStr ''public'' \<and> type1 \<noteq> VStr ''private'' \<longrightarrow>
        KeyObject_new c1 type1 handle1 = Inl (ERR_INVALID_ARG_VALUE ''type'' type1))
   \<and> ((type2 = VStr ''secret'' \<or> type2 = VStr ''public'' \<or> type2 = VStr ''private'')
        \<and> \<not> instanceof_KeyObjectHandle handle2 \<longrightarrow>
        KeyObject_new c2 type2 handle2 = Inl (ERR_INVALID_ARG_TYPE ''handle'' [''object''] handle2))
   \<and> KeyObject_type (snd (AsymmetricKeyObject_asymmetricKeyType k3)) = KeyObject_type k3
   \<and> kHandle (snd (AsymmetricKeyObject_asymmetricKeyType k3)) = kHandle k3
   \<and> (createSecretKey N key encoding = Inr v \<longrightarrow>
        (\<exists>k4. v = VKeyObject k4 \<and> KeyObject_type k4 = VStr ''secret'' \<and> category_matches k4))"
proof -
  have a: "KeyObject_new c type handle = Inr k \<longleftrightarrow>
      (type = VStr ''secret'' \<or> type = VStr ''public'' \<or> type = VStr ''private'')
      \<and> type = VStr (kKeyType k) \<and> handle = VHandle (kHandle k)
      \<and> cls k = c \<and> kAsymmetricKeyType k = None"
  proof (cases "type = VStr ''secret'' \<or> type = VStr ''public'' \<or> type = VStr ''private''")
    case False
    then show ?thesis by (simp add: KeyObject_new_bad_type)
  next
    case True
    then obtain t where t: "type = VStr t" "t = ''secret'' \<or> t = ''public'' \<or> t = ''private''"
      by auto
    show ?thesis
    proof (cases "instanceof_KeyObjectHandle handle")
      case False
      then have "\<And>h. handle \<noteq> VHandle h"
        by (auto simp: instanceof_KeyObjectHandle_def)
      with True False show ?thesis
        by (simp add: KeyObject_new_bad_handle)
    next
      case True
      then obtain h where h: "handle = VHandle h"
        by (cases handle) (simp_all add: instanceof_KeyObjectHandle_def)
      from t h have "KeyObject_new c type handle
          = Inr \<lparr>cls = c, kKeyType = t, kHandle = h, kAsymmetricKeyType = None\<rparr>"
        by (simp add: KeyObject_new_ok)
      with t h show ?thesis by (cases k) auto
    qed
  qed
  have b: "type1 \<noteq> VStr ''secret'' \<and> type1 \<noteq> VStr ''public'' \<and> type1 \<noteq> VStr ''private'' \<longrightarrow>
        KeyObject_new c1 type1 handle1 = Inl (ERR_INVALID_ARG_VALUE ''type'' type1)"
    by (simp add: KeyObject_new_bad_type)
  have c: "(type2 = VStr ''secret'' \<or> type2 = VStr ''public'' \<or> type2 = VStr ''private'')
        \<and> \<not> instanceof_KeyObjectHandle handle2 \<longrightarrow>
        KeyObject_new c2 type2 handle2 = Inl (ERR_INVALID_ARG_TYPE ''handle'' [''object''] handle2)"
    using KeyObject_new_bad_handle by blast
  have d: "KeyObject_type (snd (AsymmetricKeyObject_asymmetricKeyType k3)) = KeyObject_type k3
     \<and> kHandle (snd (AsymmetricKeyObject_asymmetricKeyType k3)) = kHandle k3"
    by (simp add: KeyObject_type_def asymmetricKeyType_keeps)
  have e: "createSecretKey N key encoding = Inr v \<longrightarrow>
        (\<exists>k4. v = VKeyObject k4 \<and> KeyObject_type k4 = VStr ''secret'' \<and> category_matches k4)"
  proof
    assume "createSecretKey N key encoding = Inr v"
    from createSecretKey_result [OF this] obtain b where
      "v = VKeyObject \<lparr>cls = SecretKeyObjectC, kKeyType = ''secret'',
                           kHandle = \<lparr>h_keyType = Some kKeyTypeSecret, h_bytes = b,
                                      h_asymmetricKeyType = None\<rparr>,
                           kAsymmetricKeyType = None\<rparr>"
      by blast
    then show "\<exists>k4. v = VKeyObject k4 \<and> KeyObject_type k4 = VStr ''secret'' \<and> category_matches k4"
      by (simp add: KeyObject_type_def category_matches_def)
  qed
  from a b c d e show ?thesis by blast
qed

theorem KeyObject_category_fixed_witness:
  "KeyObject_new PrivateKeyObjectC (VStr ''private'') (VHandle KeyObjectHandle_new)
     = Inr \<lparr>cls = PrivateKeyObjectC, kKeyType = ''private'', kHandle = KeyObjectHandle_new,
            kAsymmetricKeyType = None\<rparr>
   \<and> KeyObject_new KeyObjectC (VStr ''rsa'') (VHandle KeyObjectHandle_new)
     = Inl (ERR_INVALID_ARG_VALUE ''type'' (VStr ''rsa''))
   \<and> KeyObject_new KeyObjectC (VStr ''secret'') (VObj [])
     = Inl (ERR_INVALID_ARG_TYPE ''handle'' [''object''] (VObj []))
   \<and> createSecretKey example_native (VBuf [1, 2, 3]) VUndefined
     = Inr (VKeyObject \<lparr>cls = SecretKeyObjectC, kKeyType = ''secret'',
                        kHandle = \<lparr>h_keyType = Some kKeyTypeSecret, h_bytes = [1, 2, 3],
                                   h_asymmetricKeyType = None\<rparr>,
                        kAsymmetricKeyType = None\<rparr>)
   \<and> category_matches \<lparr>cls = SecretKeyObjectC, kKeyType = ''secret'',
                        kHandle = \<lparr>h_keyType = Some kKeyTypeSecret, h_bytes = [1, 2, 3],
                                   h_asymmetricKeyType = None\<rparr>,
                        kAsymmetricKeyType = None\<rparr>"
proof -
  have s: "createSecretKey example_native (VBuf [1, 2, 3]) VUndefined
     = Inr (VKeyObject \<lparr>cls = SecretKeyObjectC, kKeyType = ''secret'',
                        kHandle = \<lparr>h_keyType = Some kKeyTypeSecret, h_bytes = [1, 2, 3],
                                   h_asymmetricKeyType = None\<rparr>,
                        kAsymmetricKeyType = None\<rparr>)"
    by (simp add: createSecretKey_buffer)
  from KeyObject_category_fixed
         [of PrivateKeyObjectC "VStr ''private''" "VHandle KeyObjectHandle_new"
             "\<lparr>cls = PrivateKeyObjectC, kKeyType = ''private'', kHandle = KeyObjectHandle_new,
               kAsymmetricKeyType = None\<rparr>"
             "VStr ''rsa''" KeyObjectC "VHandle KeyObjectHandle_new"
             "VStr ''secret''" "VObj []" KeyObjectC
             "\<lparr>cls = PrivateKeyObjectC, kKeyType = ''private'', kHandle = KeyObjectHandle_new,
               kAsymmetricKeyType = None\<rparr>"
             example_native "VBuf [1, 2, 3]" VUndefined
             "VKeyObject \<lparr>cls = SecretKeyObjectC, kKeyType = ''secret'',
                        kHandle = \<lparr>h_keyType = Some kKeyTypeSecret, h_bytes = [1, 2, 3],
                                   h_asymmetricKeyType = None\<rparr>,
                        kAsymmetricKeyType = None\<rparr>"]
       s
  show ?thesis
    by (simp add: instanceof_KeyObjectHandle_def)
qed

text \<open>
  C8. For every non-empty byte sequence \<open>b\<close>, \<open>createSecretKey(b)\<close> returns a key
  object, and calling \<open>export()\<close> on it with no argument returns the bytes \<open>b\<close>.
\<close>

theorem createSecretKey_export_roundtrip:
  assumes "b \<noteq> []"
  shows "\<exists>v. createSecretKey N (VBuf b) encoding = Inr v
            \<and> isKeyObject v
            \<and> call_export0 N v = Inr (VBuf b)"
proof -
  let ?k = "\<lparr>cls = SecretKeyObjectC, kKeyType = ''secret'',
             kHandle = \<lparr>h_keyType = Some kKeyTypeSecret, h_bytes = b,
                        h_asymmetricKeyType = None\<rparr>,
             kAsymmetricKeyType = None\<rparr>"
  from assms have "createSecretKey N (VBuf b) encoding = Inr (VKeyObject ?k)"
    by (rule createSecretKey_buffer)
  moreover have "isKeyObject (VKeyObject ?k)"
    by (simp add: isKeyObject_def)
  moreover have "call_export0 N (VKeyObject ?k) = Inr (VBuf b)"
    by (simp add: call_export0_def SecretKeyObject_export_def KeyObjectHandle_export_def)
  ultimately show ?thesis by blast
qed

theorem createSecretKey_export_roundtrip_witness:
  "[1, 2, 3] \<noteq> ([] :: byte list)
   \<and> createSecretKey example_native (VBuf [1, 2, 3]) VUndefined
       = Inr (VKeyObject \<lparr>cls = SecretKeyObjectC, kKeyType = ''secret'',
                          kHandle = \<lparr>h_keyType = Some kKeyTypeSecret, h_bytes = [1, 2, 3],
                                     h_asymmetricKeyType = None\<rparr>,
                          kAsymmetricKeyType = None\<rparr>)
   \<and> call_export0 example_native
         (VKeyObject \<lparr>cls = SecretKeyObjectC, kKeyType = ''secret'',
                      kHandle = \<lparr>h_keyType = Some kKeyTypeSecret, h_bytes = [1, 2, 3],
                                 h_asymmetricKeyType = None\<rparr>,
                      kAsymmetricKeyType = None\<rparr>)
       = Inr (VBuf [1, 2, 3])"
proof -
  have h: "[1, 2, 3] \<noteq> ([] :: byte list)" by simp
  have s: "createSecretKey example_native (VBuf [1, 2, 3]) VUndefined
       = Inr (VKeyObject \<lparr>cls = SecretKeyObjectC, kKeyType = ''secret'',
                          kHandle = \<lparr>h_keyType = Some kKeyTypeSecret, h_bytes = [1, 2, 3],
                                     h_asymmetricKeyType = None\<rparr>,
                          kAsymmetricKeyType = None\<rparr>)"
    by (simp add: createSecretKey_buffer)
  from createSecretKey_export_roundtrip [OF h, of example_native VUndefined]
  obtain v where "createSecretKey example_native (VBuf [1, 2, 3]) VUndefined = Inr v"
    and "call_export0 example_native v = Inr (VBuf [1, 2, 3])"
    by blast
  with s h show ?thesis by simp
qed

lemma ArrayFrom_is_array: "ArrayFrom v = Inr u \<Longrightarrow> \<exists>xs. u = VArr xs"
  by (cases v) auto

lemma ArrayFrom_copy: "ArrayFrom v = Inr u \<Longrightarrow> ArrayFrom u = Inr u"
  using ArrayFrom_is_array by fastforce

text \<open>
  C2. For every Crypto Key built by the internal constructor whose \<open>usages\<close> can be
  read, \<open>[kClone]\<close> returns a snapshot, and the object reconstructed from it by
  \<open>[kDeserialize]\<close> has the same \<open>type\<close>, \<open>extractable\<close>, \<open>algorithm\<close> and \<open>usages\<close>,
  the usages in the same order.
\<close>

theorem CryptoKey_transfer_roundtrip:
  assumes "CryptoKey_usages (InternalCryptoKey_new ko alg us ex) = Inr u"
  shows "\<exists>c. CryptoKey_kClone (InternalCryptoKey_new ko alg us ex) = Inr c
           \<and> deserializeInfo c = ''internal/crypto/keys:InternalCryptoKey''
           \<and> CryptoKey_type (receive c) = CryptoKey_type (InternalCryptoKey_new ko alg us ex)
           \<and> CryptoKey_extractable (receive c) = Inr ex
           \<and> CryptoKey_extractable (InternalCryptoKey_new ko alg us ex) = Inr ex
           \<and> CryptoKey_algorithm (receive c) = Inr alg
           \<and> CryptoKey_algorithm (InternalCryptoKey_new ko alg us ex) = Inr alg
           \<and> CryptoKey_usages (receive c) = Inr u"
proof -
  from assms have au: "ArrayFrom us = Inr u"
    by (simp add: CryptoKey_usages_def InternalCryptoKey_new_def andThen_Inr)
  let ?c = "\<lparr>data = \<lparr>keyObject = ko, algorithm = alg, usages = u, extractable = ex\<rparr>,
             deserializeInfo = ''internal/crypto/keys:InternalCryptoKey''\<rparr>"
  have c: "CryptoKey_kClone (InternalCryptoKey_new ko alg us ex) = Inr ?c"
    using au
    by (simp add: CryptoKey_kClone_def CryptoKey_usages_def CryptoKey_algorithm_def
        CryptoKey_extractable_def InternalCryptoKey_new_def andThen_Inr)
  have r: "receive ?c = VCryptoKey ko alg ex u"
    by (simp add: receive_def CryptoKey_kDeserialize_def InternalCryptoKey_new_def)
  have t: "CryptoKey_type (receive ?c) = CryptoKey_type (InternalCryptoKey_new ko alg us ex)"
    by (simp add: r CryptoKey_type_def InternalCryptoKey_new_def)
  have e: "CryptoKey_extractable (receive ?c) = Inr ex
         \<and> CryptoKey_extractable (InternalCryptoKey_new ko alg us ex) = Inr ex"
    by (simp add: r CryptoKey_extractable_def InternalCryptoKey_new_def)
  have a: "CryptoKey_algorithm (receive ?c) = Inr alg
         \<and> CryptoKey_algorithm (InternalCryptoKey_new ko alg us ex) = Inr alg"
    by (simp add: r CryptoKey_algorithm_def InternalCryptoKey_new_def)
  have u: "CryptoKey_usages (receive ?c) = Inr u"
    using ArrayFrom_copy [OF au]
    by (simp add: r CryptoKey_usages_def andThen_Inr)
  from c t e a u show ?thesis by simp
qed

theorem CryptoKey_transfer_roundtrip_witness:
  "CryptoKey_usages
     (InternalCryptoKey_new
        (VKeyObject \<lparr>cls = SecretKeyObjectC, kKeyType = ''secret'',
                     kHandle = KeyObjectHandle_new, kAsymmetricKeyType = None\<rparr>)
        (VObj [(''name'', VStr ''HMAC'')]) (VArr [VStr ''verify'', VStr ''sign'']) (VBool True))
     = Inr (VArr [VStr ''verify'', VStr ''sign''])
   \<and> CryptoKey_kClone
       (InternalCryptoKey_new
          (VKeyObject \<lparr>cls = SecretKeyObjectC, kKeyType = ''secret'',
                       kHandle = KeyObjectHandle_new, kAsymmetricKeyType = None\<rparr>)
          (VObj [(''name'', VStr ''HMAC'')]) (VArr [VStr ''verify'', VStr ''sign'']) (VBool True))
     = Inr \<lparr>data = \<lparr>keyObject =
                         VKeyObject \<lparr>cls = SecretKeyObjectC, kKeyType = ''secret'',
                                     kHandle = KeyObjectHandle_new,
                                     kAsymmetricKeyType = None\<rparr>,
                       algorithm = VObj [(''name'', VStr ''HMAC'')],
                       usages = VArr [VStr ''verify'', VStr ''sign''],
                       extractable = VBool True\<rparr>,
            deserializeInfo = ''internal/crypto/keys:InternalCryptoKey''\<rparr>
   \<and> CryptoKey_type
       (receive \<lparr>data = \<lparr>keyObject =
                         VKeyObject \<lparr>cls = SecretKeyObjectC, kKeyType = ''secret'',
                                     kHandle = KeyObjectHandle_new,
                                     kAsymmetricKeyType = None\<rparr>,
                       algorithm = VObj [(''name'', VStr ''HMAC'')],
                       usages = VArr [VStr ''verify'', VStr ''sign''],
                       extractable = VBool True\<rparr>,
            deserializeInfo = ''internal/crypto/keys:InternalCryptoKey''\<rparr>)
     = Inr (VStr ''secret'')
   \<and> CryptoKey_usages
       (receive \<lparr>data = \<lparr>keyObject =
                         VKeyObject \<lparr>cls = SecretKeyObjectC, kKeyType = ''secret'',
                                     kHandle = KeyObjectHandle_new,
                                     kAsymmetricKeyType = None\<rparr>,
                       algorithm = VObj [(''name'', VStr ''HMAC'')],
                       usages = VArr [VStr ''verify'', VStr ''sign''],
                       extractable = VBool True\<rparr>,
            deserializeInfo = ''internal/crypto/keys:InternalCryptoKey''\<rparr>)
     = Inr (VArr [VStr ''verify'', VStr ''sign''])"
proof -
  let ?ko = "VKeyObject \<lparr>cls = SecretKeyObjectC, kKeyType = ''secret'',
                         kHandle = KeyObjectHandle_new, kAsymmetricKeyType = None\<rparr>"
  let ?k = "InternalCryptoKey_new ?ko (VObj [(''name'', VStr ''HMAC'')])
              (VArr [VStr ''verify'', VStr ''sign'']) (VBool True)"
  let ?c = "\<lparr>data = \<lparr>keyObject = ?ko, algorithm = VObj [(''name'', VStr ''HMAC'')],
                     usages = VArr [VStr ''verify'', VStr ''sign''],
                     extractable = VBool True\<rparr>,
             deserializeInfo = ''internal/crypto/keys:InternalCryptoKey''\<rparr>"
  have h: "CryptoKey_usages ?k = Inr (VArr [VStr ''verify'', VStr ''sign''])"
    by (simp add: CryptoKey_usages_def InternalCryptoKey_new_def andThen_Inr)
  have t: "CryptoKey_type ?k = Inr (VStr ''secret'')"
    by (simp add: CryptoKey_type_def InternalCryptoKey_new_def andThen_Inr)
  have c: "CryptoKey_kClone ?k = Inr ?c"
    by (simp add: CryptoKey_kClone_def CryptoKey_usages_def CryptoKey_algorithm_def
        CryptoKey_extractable_def InternalCryptoKey_new_def andThen_Inr)
  from CryptoKey_transfer_roundtrip [OF h] obtain c' where
    "CryptoKey_kClone ?k = Inr c'"
    "CryptoKey_type (receive c') = CryptoKey_type ?k"
    "CryptoKey_usages (receive c') = Inr (VArr [VStr ''verify'', VStr ''sign''])"
    by blast
  with c t h show ?thesis by simp
qed

text \<open>
  C3. \<open>new CryptoKey(...)\<close> fails with the illegal-constructor error for every argument
  list. The internal constructor returns an instance whose accessors read back what it
  was given, and which is recognised as a Crypto Key exactly when its key object is not
  \<open>undefined\<close>.
\<close>

theorem CryptoKey_illegal_constructor:
  "CryptoKey_new args = Inl (ERR_OPERATION_FAILED ''Illegal constructor'')
   \<and> CryptoKey_type (InternalCryptoKey_new ko alg us ex) = getProp ko ''type''
   \<and> CryptoKey_extractable (InternalCryptoKey_new ko alg us ex) = Inr ex
   \<and> CryptoKey_algorithm (InternalCryptoKey_new ko alg us ex) = Inr alg
   \<and> CryptoKey_usages (InternalCryptoKey_new ko alg us ex) = ArrayFrom us
   \<and> isCryptoKey (InternalCryptoKey_new ko alg us ex) = (ko \<noteq> VUndefined)"
  by (simp add: CryptoKey_new_def CryptoKey_type_def CryptoKey_extractable_def
      CryptoKey_algorithm_def CryptoKey_usages_def InternalCryptoKey_new_def
      isCryptoKey_def andThen_Inr)

text \<open>
  C4, as stated, fails: an object of the internal construction path whose key object
  is \<open>undefined\<close>, as the transfer machinery makes before \<open>[kDeserialize]\<close> runs, is
  not recognised.
\<close>

theorem isCryptoKey_internal_counterexample:
  "isCryptoKey (InternalCryptoKey_new VUndefined VUndefined VUndefined VUndefined) = False"
  by (simp add: isCryptoKey_def InternalCryptoKey_new_def)

lemma factory_results:
  "createSecretKey N key encoding = Inr v \<Longrightarrow> isKeyObject v"
  "createPublicKey N key = Inr v \<Longrightarrow> isKeyObject v"
  "createPrivateKey N key = Inr v \<Longrightarrow> isKeyObject v"
  by (auto simp: createSecretKey_def createPublicKey_def createPrivateKey_def andThen_def
      isKeyObject_def Let_def split: sum.splits if_splits)

text \<open>
  C4, amended. The Key Object predicate holds iff the value is an instance of the
  \<open>KeyObject\<close> class; every value returned by the three factories is one, and so is
  every object the constructor returns. The Crypto Key predicate holds iff the value
  carries a \<open>kKeyObject\<close> slot that is not \<open>undefined\<close>, which is the case for the objects
  of the internal construction path whose key object is defined. Neither predicate
  recognises a plain object, whatever its string-keyed properties, or a primitive.
\<close>

theorem recognition_predicates:
  "(isKeyObject v \<longleftrightarrow> (\<exists>k. v = VKeyObject k))
   \<and> (isCryptoKey v \<longleftrightarrow> (\<exists>ko alg ex us. v = VCryptoKey ko alg ex us \<and> ko \<noteq> VUndefined))
   \<and> (createSecretKey N key1 encoding = Inr v1 \<longrightarrow> isKeyObject v1)
   \<and> (createPublicKey N key2 = Inr v2 \<longrightarrow> isKeyObject v2)
   \<and> (createPrivateKey N key3 = Inr v3 \<longrightarrow> isKeyObject v3)
   \<and> (KeyObject_new c type handle = Inr k \<longrightarrow> isKeyObject (VKeyObject k))
   \<and> (ko \<noteq> VUndefined \<longrightarrow> isCryptoKey (InternalCryptoKey_new ko alg us ex))
   \<and> \<not> isKeyObject (VObj fs) \<and> \<not> isCryptoKey (VObj fs)
   \<and> \<not> isKeyObject (VStr s) \<and> \<not> isCryptoKey (VStr s)
   \<and> \<not> isKeyObject (VCryptoKey ko' alg' ex' us')
   \<and> \<not> isCryptoKey (VKeyObject k')"
proof -
  have a: "isKeyObject v \<longleftrightarrow> (\<exists>k. v = VKeyObject k)"
    by (cases v) (simp_all add: isKeyObject_def)
  have b: "isCryptoKey v \<longleftrightarrow> (\<exists>ko alg ex us. v = VCryptoKey ko alg ex us \<and> ko \<noteq> VUndefined)"
    by (cases v) (simp_all add: isCryptoKey_def)
  have c: "ko \<noteq> VUndefined \<longrightarrow> isCryptoKey (InternalCryptoKey_new ko alg us ex)"
    by (simp add: isCryptoKey_def InternalCryptoKey_new_def)
  have d: "\<not> isKeyObject (VObj fs) \<and> \<not> isCryptoKey (VObj fs)
         \<and> \<not> isKeyObject (VStr s) \<and> \<not> isCryptoKey (VStr s)
         \<and> \<not> isKeyObject (VCryptoKey ko' alg' ex' us')
         \<and> \<not> isCryptoKey (VKeyObject k')"
    by (simp add: isKeyObject_def isCryptoKey_def)
  have e: "KeyObject_new c type handle = Inr k \<longrightarrow> isKeyObject (VKeyObject k)"
    by (simp add: isKeyObject_def)
  from a b c d e factory_results show ?thesis by blast
qed

theorem recognition_predicates_witness:
  "createSecretKey example_native (VBuf [7]) VUndefined
     = Inr (VKeyObject \<lparr>cls = SecretKeyObjectC, kKeyType = ''secret'',
                        kHandle = \<lparr>h_keyType = Some kKeyTypeSecret, h_bytes = [7],
                                   h_asymmetricKeyType = None\<rparr>,
                        kAsymmetricKeyType = None\<rparr>)
   \<and> isKeyObject (VKeyObject \<lparr>cls = SecretKeyObjectC, kKeyType = ''secret'',
                        kHandle = \<lparr>h_keyType = Some kKeyTypeSecret, h_bytes = [7],
                                   h_asymmetricKeyType = None\<rparr>,
                        kAsymmetricKeyType = None\<rparr>)
   \<and> KeyObject_new PublicKeyObjectC (VStr ''public'') (VHandle KeyObjectHandle_new)
     = Inr \<lparr>cls = PublicKeyObjectC, kKeyType = ''public'', kHandle = KeyObjectHandle_new,
            kAsymmetricKeyType = None\<rparr>
   \<and> isKeyObject (VKeyObject \<lparr>cls = PublicKeyObjectC, kKeyType = ''public'',
                               kHandle = KeyObjectHandle_new, kAsymmetricKeyType = None\<rparr>)
   \<and> VNull \<noteq> VUndefined
   \<and> isCryptoKey (InternalCryptoKey_new VNull VUndefined VUndefined VUndefined)
   \<and> \<not> isCryptoKey (VObj [(''kKeyObject'', VNull)])"
proof -
  let ?s = "VKeyObject \<lparr>cls = SecretKeyObjectC, kKeyType = ''secret'',
                        kHandle = \<lparr>h_keyType = Some kKeyTypeSecret, h_bytes = [7],
                                   h_asymmetricKeyType = None\<rparr>,
                        kAsymmetricKeyType = None\<rparr>"
  let ?p = "\<lparr>cls = PublicKeyObjectC, kKeyType = ''public'', kHandle = KeyObjectHandle_new,
             kAsymmetricKeyType = None\<rparr>"
  have s: "createSecretKey example_native (VBuf [7]) VUndefined = Inr ?s"
    by (simp add: createSecretKey_buffer)
  have p: "KeyObject_new PublicKeyObjectC (VStr ''public'') (VHandle KeyObjectHandle_new) = Inr ?p"
    by (simp add: KeyObject_new_ok)
  from recognition_predicates
         [where v = VNull and ?v1.0 = ?s and N = example_native and ?key1.0 = "VBuf [7]"
            and encoding = VUndefined and c = PublicKeyObjectC and type = "VStr ''public''"
            and handle = "VHandle KeyObjectHandle_new" and k = ?p and ko = VNull
            and alg = VUndefined and us = VUndefined and ex = VUndefined
            and fs = "[(''kKeyObject'', VNull)]"]
       s p
  show ?thesis by simp
qed

lemma parseKeyFormat_der: "parseKeyFormat (VStr ''der'') d optionName = Inr kKeyFormatDER"
  by (simp add: parseKeyFormat_def split: option.splits)

text \<open>
  C5, as stated, fails: with a cipher that is not a string the export of an RSA key as
  DER and PKCS1 fails with an invalid-argument-value error, not with an
  incompatible-key-options error.
\<close>

theorem der_cipher_counterexample:
  "parsePrivateKeyEncoding example_native
     (VObj [(''format'', VStr ''der''), (''type'', VStr ''pkcs1''), (''cipher'', VNum 42)])
     (VStr ''rsa'') None
   = Inl (ERR_INVALID_ARG_VALUE ''options.cipher'' (VNum 42))"
  by (simp add: parsePrivateKeyEncoding_def parseKeyEncoding_def parseKeyFormatAndType_def
      parseKeyFormat_def parseKeyType_def option_path_def andThen_Inr andThen_Inl)

text \<open>
  C5, amended. For every private-key export negotiation, format DER together with
  type PKCS1 or SEC1 and any non-null cipher fails: with an incompatible-key-options
  error when the cipher is a string, whether or not it names a cipher (and already when
  the type does not fit the key family), and with an invalid-argument-value error when
  the type fits the key family and the cipher is not a string.
\<close>

theorem der_cipher_rejected:
  assumes "keyType \<noteq> VUndefined"
    and "enc \<noteq> VNull" and "typeof enc = ''object''"
    and "getProp enc ''format'' = Inr (VStr ''der'')"
    and "getProp enc ''type'' = Inr (VStr t)" and "t = ''pkcs1'' \<or> t = ''sec1''"
    and "getProp enc ''cipher'' = Inr cipher" and "cipher \<noteq> VNull" and "cipher \<noteq> VUndefined"
  shows "parsePrivateKeyEncoding N enc keyType objName =
           (if t = ''pkcs1'' \<and> keyType \<noteq> VStr ''rsa''
            then Inl (ERR_CRYPTO_INCOMPATIBLE_KEY_OPTIONS ''pkcs1'' ''can only be used for RSA keys'')
            else if t = ''sec1'' \<and> keyType \<noteq> VStr ''ec''
            then Inl (ERR_CRYPTO_INCOMPATIBLE_KEY_OPTIONS ''sec1'' ''can only be used for EC keys'')
            else if typeof cipher \<noteq> ''string''
            then Inl (ERR_INVALID_ARG_VALUE (option_path ''cipher'' objName) cipher)
            else Inl (ERR_CRYPTO_INCOMPATIBLE_KEY_OPTIONS t ''does not support encryption''))"
proof -
  have p: "\<exists>v. getProp enc ''passphrase'' = Inr v"
    using assms(2,3) by (cases enc) simp_all
  have e: "\<exists>v. getProp enc ''encoding'' = Inr v"
    using assms(2,3) by (cases enc) simp_all
  from p obtain pp where pp: "getProp enc ''passphrase'' = Inr pp" ..
  from e obtain ee where ee: "getProp enc ''encoding'' = Inr ee" ..
  have ft: "parseKeyFormatAndType enc keyType (VBool False) objName =
           (if t = ''pkcs1'' \<and> keyType \<noteq> VStr ''rsa''
            then Inl (ERR_CRYPTO_INCOMPATIBLE_KEY_OPTIONS ''pkcs1'' ''can only be used for RSA keys'')
            else if t = ''sec1'' \<and> keyType \<noteq> VStr ''ec''
            then Inl (ERR_CRYPTO_INCOMPATIBLE_KEY_OPTIONS ''sec1'' ''can only be used for EC keys'')
            else Inr (kKeyFormatDER,
                      Some (if t = ''pkcs1'' then kKeyEncodingPKCS1 else kKeyEncodingSEC1)))"
    using assms(1,4,5,6)
    by (auto simp: parseKeyFormatAndType_def parseKeyFormat_der parseKeyType_def
        andThen_Inr andThen_Inl Let_def)
  show ?thesis
    using assms(1,2,3,6,7,8,9) pp ee
    by (auto simp: parsePrivateKeyEncoding_def parseKeyEncoding_def ft
        andThen_Inr andThen_Inl Let_def)
qed

theorem der_cipher_rejected_witness:
  "parsePrivateKeyEncoding example_native
     (VObj [(''format'', VStr ''der''), (''type'', VStr ''sec1''),
            (''cipher'', VStr ''aes-256-cbc''), (''passphrase'', VStr ''pw'')])
     (VStr ''ec'') None
   = Inl (ERR_CRYPTO_INCOMPATIBLE_KEY_OPTIONS ''sec1'' ''does not support encryption'')"
  using der_cipher_rejected
          [of "VStr ''ec''"
              "VObj [(''format'', VStr ''der''), (''type'', VStr ''sec1''),
                     (''cipher'', VStr ''aes-256-cbc''), (''passphrase'', VStr ''pw'')]"
              "''sec1''" "VStr ''aes-256-cbc''" example_native None]
  by simp

text \<open>
  C6, as stated, fails: in the unrestricted context, where \<open>isPublic\<close> is \<open>undefined\<close>
  and not \<open>true\<close>, the type \<open>spki\<close> is resolved.
\<close>

theorem spki_unrestricted_counterexample:
  "parseKeyType (VStr ''spki'') True VUndefined VUndefined ''options.type''
   = Inr (Some kKeyEncodingSPKI)"
  by (simp add: parseKeyType_def)

text \<open>
  C6, amended. The type \<open>spki\<close> is an invalid-argument-value error exactly in the
  private context, where \<open>isPublic\<close> is \<open>false\<close>; in the public context and in the
  unrestricted one it resolves to SPKI.
\<close>

theorem spki_only_not_private:
  "parseKeyType (VStr ''spki'') required keyType isPublic optionName =
     (if isPublic = VBool False then Inl (ERR_INVALID_ARG_VALUE optionName (VStr ''spki''))
      else Inr (Some kKeyEncodingSPKI))"
  by (simp add: parseKeyType_def)

text \<open>
  C7. In the create-private-key context an existing Key Object or Crypto Key is
  rejected with an invalid-argument-type error, whether it is passed directly or as the
  \<open>key\<close> property of an options object, and so \<open>createPrivateKey\<close> fails on it.
\<close>

theorem createPrivate_rejects_key_objects:
  assumes "isKeyObject k \<or> isCryptoKey k"
    and "map_of fs ''key'' = Some k"
  shows "(\<exists>v. prepareAsymmetricKey N k kCreatePrivate
                = Inl (ERR_INVALID_ARG_TYPE ''key''
                        [''string'', ''ArrayBuffer'', ''Buffer'', ''TypedArray'', ''DataView''] v))
       \<and> (\<exists>v. prepareAsymmetricKey N (VObj fs) kCreatePrivate
                = Inl (ERR_INVALID_ARG_TYPE ''key''
                        [''string'', ''ArrayBuffer'', ''Buffer'', ''TypedArray'', ''DataView''] v))
       \<and> (\<exists>n ts v. createPrivateKey N k = Inl (ERR_INVALID_ARG_TYPE n ts v))
       \<and> (\<exists>n ts v. createPrivateKey N (VObj fs) = Inl (ERR_INVALID_ARG_TYPE n ts v))"
proof -
  let ?ts = "[''string'', ''ArrayBuffer'', ''Buffer'', ''TypedArray'', ''DataView'']"
  have h: "\<And>x. getKeyObjectHandle x kCreatePrivate = Inl (ERR_INVALID_ARG_TYPE ''key'' ?ts x)"
    by (simp add: getKeyObjectHandle_def)
  have o: "\<not> isKeyObject (VObj fs)" "\<not> isCryptoKey (VObj fs)" "\<not> isStringOrBuffer (VObj fs)"
    by (simp_all add: isKeyObject_def isCryptoKey_def isStringOrBuffer_def
        isArrayBufferView_def isAnyArrayBuffer_def)
  have g: "getProp (VObj fs) ''key'' = Inr k"
    using assms(2) by simp
  have ge: "\<exists>e. getProp (VObj fs) ''encoding'' = Inr e"
    by simp
  from assms(1) show ?thesis
  proof
    assume k: "isKeyObject k"
    have d: "prepareAsymmetricKey N k kCreatePrivate = Inl (ERR_INVALID_ARG_TYPE ''key'' ?ts k)"
      using k by (simp add: prepareAsymmetricKey_def h andThen_Inl)
    have i: "prepareAsymmetricKey N (VObj fs) kCreatePrivate
               = Inl (ERR_INVALID_ARG_TYPE ''key'' ?ts k)"
      using k o g by (simp add: prepareAsymmetricKey_def h andThen_Inl andThen_Inr)
    from d i show ?thesis
      by (simp add: createPrivateKey_def andThen_Inl)
  next
    assume k: "isCryptoKey k"
    then obtain ko alg ex us where ko: "k = VCryptoKey ko alg ex us"
      by (cases k) (simp_all add: isCryptoKey_def)
    have nk: "\<not> isKeyObject k"
      using ko by (simp add: isKeyObject_def)
    have s: "get_kKeyObject k = Inr ko"
      using ko by simp
    have d: "prepareAsymmetricKey N k kCreatePrivate = Inl (ERR_INVALID_ARG_TYPE ''key'' ?ts ko)"
      using k nk s by (simp add: prepareAsymmetricKey_def h andThen_Inl andThen_Inr)
    have i: "prepareAsymmetricKey N (VObj fs) kCreatePrivate
               = Inl (ERR_INVALID_ARG_TYPE ''key'' ?ts ko)"
      using k nk s o g by (simp add: prepareAsymmetricKey_def h andThen_Inl andThen_Inr)
    from d i show ?thesis
      by (simp add: createPrivateKey_def andThen_Inl)
  qed
qed

theorem createPrivate_rejects_key_objects_witness:
  "isKeyObject (VKeyObject \<lparr>cls = PrivateKeyObjectC, kKeyType = ''private'',
                            kHandle = KeyObjectHandle_new, kAsymmetricKeyType = None\<rparr>)
   \<and> prepareAsymmetricKey example_native
       (VKeyObject \<lparr>cls = PrivateKeyObjectC, kKeyType = ''private'',
                    kHandle = KeyObjectHandle_new, kAsymmetricKeyType = None\<rparr>)
       kCreatePrivate
     = Inl (ERR_INVALID_ARG_TYPE ''key''
             [''string'', ''ArrayBuffer'', ''Buffer'', ''TypedArray'', ''DataView'']
             (VKeyObject \<lparr>cls = PrivateKeyObjectC, kKeyType = ''private'',
                          kHandle = KeyObjectHandle_new, kAsymmetricKeyType = None\<rparr>))
   \<and> prepareAsymmetricKey example_native
       (VObj [(''key'', VKeyObject \<lparr>cls = PrivateKeyObjectC, kKeyType = ''private'',
                                   kHandle = KeyObjectHandle_new, kAsymmetricKeyType = None\<rparr>),
              (''format'', VStr ''pem'')])
       kCreatePrivate
     = Inl (ERR_INVALID_ARG_TYPE ''key''
             [''string'', ''ArrayBuffer'', ''Buffer'', ''TypedArray'', ''DataView'']
             (VKeyObject \<lparr>cls = PrivateKeyObjectC, kKeyType = ''private'',
                          kHandle = KeyObjectHandle_new, kAsymmetricKeyType = None\<rparr>))"
proof -
  let ?k = "VKeyObject \<lparr>cls = PrivateKeyObjectC, kKeyType = ''private'',
                        kHandle = KeyObjectHandle_new, kAsymmetricKeyType = None\<rparr>"
  let ?fs = "[(''key'', ?k), (''format'', VStr ''pem'')]"
  let ?ts = "[''string'', ''ArrayBuffer'', ''Buffer'', ''TypedArray'', ''DataView'']"
  have a0: "isKeyObject ?k"
    by (simp add: isKeyObject_def)
  then have a: "isKeyObject ?k \<or> isCryptoKey ?k" ..
  have b: "map_of ?fs ''key'' = Some ?k"
    by simp
  have d: "prepareAsymmetricKey example_native ?k kCreatePrivate
             = Inl (ERR_INVALID_ARG_TYPE ''key'' ?ts ?k)"
    by (simp add: prepareAsymmetricKey_def isKeyObject_def getKeyObjectHandle_def andThen_Inl)
  have i: "prepareAsymmetricKey example_native (VObj ?fs) kCreatePrivate
             = Inl (ERR_INVALID_ARG_TYPE ''key'' ?ts ?k)"
    by (simp add: prepareAsymmetricKey_def isKeyObject_def isCryptoKey_def
        isStringOrBuffer_def isArrayBufferView_def isAnyArrayBuffer_def
        getKeyObjectHandle_def andThen_Inl andThen_Inr)
  from createPrivate_rejects_key_objects [OF a b, of example_native] a0 d i
  show ?thesis by simp
qed

end
